theory Spec2Isabelle
  imports Complex_Main "HOL-Library.Char_ord" "HOL-Library.List_Lexorder" "HOL-Library.AList"
begin

section \<open>Python and numpy primitives used by the data module\<close>

text \<open>
  Python integers are unbounded and are modelled by \<open>int\<close>. Python floats are modelled
  by exact rationals. On every concrete input evaluated below the source's float
  arithmetic gives the value the rational arithmetic gives: the quotients \<open>5/10\<close>,
  \<open>15/10\<close>, \<open>25/10\<close> and the products \<open>5 * 0.5\<close>, \<open>0.5 * 4\<close> are exact, and
  \<open>int(0.8 * 5)\<close> and \<open>int(0.1 * 5)\<close> are \<open>4\<close> and \<open>0\<close> in both.
\<close>

datatype py_error =
    IndexError
  | ValueError
  | RuntimeError string
  | FileNotFoundError

text \<open>Sequencing of calls that may raise: the first exception ends the computation.\<close>

definition or_raise :: "py_error + 'a \<Rightarrow> ('a \<Rightarrow> py_error + 'b) \<Rightarrow> py_error + 'b" where
  "or_raise r k = (case r of Inl e \<Rightarrow> Inl e | Inr v \<Rightarrow> k v)"

text \<open>\<open>int(f)\<close> on a float truncates towards zero.\<close>

definition py_int :: "rat \<Rightarrow> int" where
  "py_int q = (if 0 \<le> q then \<lfloor>q\<rfloor> else \<lceil>q\<rceil>)"

text \<open>
  A slice bound as \<open>slice.indices\<close> normalises it for step 1: a negative bound counts
  from the end and is clipped at 0, a non-negative one is clipped at the length.
\<close>

definition py_bound :: "nat \<Rightarrow> int \<Rightarrow> nat" where
  "py_bound n i = (if i < 0 then nat (int n + i) else min (nat i) n)"

text \<open>\<open>xs[i:j]\<close>, \<open>xs[:j]\<close> and \<open>xs[i:]\<close>.\<close>

definition py_slice :: "'a list \<Rightarrow> int \<Rightarrow> int \<Rightarrow> 'a list" where
  "py_slice xs i j = drop (py_bound (length xs) i) (take (py_bound (length xs) j) xs)"

definition py_slice_to :: "'a list \<Rightarrow> int \<Rightarrow> 'a list" where
  "py_slice_to xs j = take (py_bound (length xs) j) xs"

definition py_slice_from :: "'a list \<Rightarrow> int \<Rightarrow> 'a list" where
  "py_slice_from xs i = drop (py_bound (length xs) i) xs"

text \<open>\<open>xs[i]\<close>: an index below zero is taken from the end; outside the list it raises.\<close>

definition py_index :: "nat \<Rightarrow> int \<Rightarrow> int" where
  "py_index n i = (if i < 0 then i + int n else i)"

definition py_get :: "'a list \<Rightarrow> int \<Rightarrow> py_error + 'a" where
  "py_get xs i =
     (if py_index (length xs) i < 0 \<or> int (length xs) \<le> py_index (length xs) i
      then Inl IndexError
      else Inr (xs ! nat (py_index (length xs) i)))"

text \<open>
  A two-dimensional numpy array of shape \<open>(length rows, ncols)\<close>. The column count is
  kept beside the rows because an array with no row still has one.
\<close>

record 'a ndarray2 =
  ncols :: nat
  rows :: "'a list list"


text \<open>\<open>a[:, j]\<close> for a literal \<open>j \<ge> 0\<close>: raises when the array has no such column.\<close>

definition column :: "'a ndarray2 \<Rightarrow> nat \<Rightarrow> py_error + 'a list" where
  "column a j = (if j < ncols a then Inr (map (\<lambda>r. r ! j) (rows a)) else Inl IndexError)"

text \<open>\<open>a[idx]\<close> for an array \<open>idx\<close> of non-negative row indices.\<close>

definition take_rows :: "'a ndarray2 \<Rightarrow> nat list \<Rightarrow> py_error + 'a ndarray2" where
  "take_rows a idx =
     (if list_all (\<lambda>i. i < length (rows a)) idx
      then Inr (a\<lparr>rows := map (\<lambda>i. rows a ! i) idx\<rparr>)
      else Inl IndexError)"

text \<open>\<open>np.where(c != 0)[0]\<close> and \<open>np.where(c == 0)[0]\<close>.\<close>

definition where_ne0 :: "int list \<Rightarrow> nat list" where
  "where_ne0 c = filter (\<lambda>i. c ! i \<noteq> 0) [0..<length c]"

definition where_eq0 :: "int list \<Rightarrow> nat list" where
  "where_eq0 c = filter (\<lambda>i. c ! i = 0) [0..<length c]"

text \<open>\<open>np.round\<close> rounds to the nearest integer, a tie to the even one.\<close>

definition np_round :: "rat \<Rightarrow> int" where
  "np_round q =
     (let f = \<lfloor>q\<rfloor>; d = q - of_int f
      in if d < 1 / 2 then f else if 1 / 2 < d then f + 1 else if even f then f else f + 1)"

subsection \<open>The global random generator\<close>

text \<open>
  numpy's generator is not part of the repository and is a parameter of the model:
  \<open>seed_state s\<close> is the state \<open>np.random.seed(s)\<close> installs, \<open>randint g n k\<close> draws
  \<open>k\<close> positions below \<open>n\<close> from state \<open>g\<close> and returns the state it leaves, and
  \<open>seed_everything s g\<close> is the state \<open>pl.seed_everything(s)\<close> leaves.
\<close>

record 'g generator =
  seed_state :: "int \<Rightarrow> 'g"
  randint :: "'g \<Rightarrow> nat \<Rightarrow> nat \<Rightarrow> nat list \<times> 'g"
  seed_everything :: "int \<Rightarrow> 'g \<Rightarrow> 'g"


text \<open>\<open>np.random.seed(s)\<close> replaces the global state; the seed must fit 32 bits.\<close>

definition np_random_seed :: "'g generator \<Rightarrow> int \<Rightarrow> 'g \<Rightarrow> py_error + 'g" where
  "np_random_seed G s g = (if 0 \<le> s \<and> s < 2 ^ 32 then Inr (seed_state G s) else Inl ValueError)"

text \<open>
  \<open>np.random.choice(a, size=k)\<close> with the defaults \<open>replace=True, p=None\<close>: \<open>k\<close> positions
  are drawn independently and the entries of \<open>a\<close> at these positions are returned.
\<close>

definition np_random_choice ::
  "'g generator \<Rightarrow> 'a list \<Rightarrow> int \<Rightarrow> 'g \<Rightarrow> py_error + ('a list \<times> 'g)" where
  "np_random_choice G a k g =
     (if k < 0 then Inl ValueError
      else if a = [] \<and> k \<noteq> 0 then Inl ValueError
      else (case randint G g (length a) (nat k) of
              (pos, g') \<Rightarrow> Inr (map (\<lambda>p. a ! p) pos, g')))"

subsection \<open>Event files and the process environment\<close>

text \<open>An event file holds the hit features \<open>x\<close> and the hit labels \<open>y\<close>.\<close>

record event =
  ev_x :: "rat ndarray2"
  ev_y :: "int ndarray2"

text \<open>A path is a directory and a file name; a directory lists its files.\<close>

type_synonym path = "string \<times> string"

type_synonym directory = "(string \<times> event) list"

datatype log_entry = SavingNoisyData string | SettingSeed int

record 'g world =
  fs :: "string \<Rightarrow> directory"
  np_random :: 'g
  seeded :: "int list"
  logged :: "log_entry list"
  get_rank :: int
  torch_initial_seed :: int

definition np_load :: "'g world \<Rightarrow> path \<Rightarrow> py_error + event" where
  "np_load w p =
     (case map_of (fs w (fst p)) (snd p) of None \<Rightarrow> Inl FileNotFoundError | Some e \<Rightarrow> Inr e)"

definition is_npz :: "string \<Rightarrow> bool" where
  "is_npz n = (4 \<le> length n \<and> drop (length n - 4) n = ''.npz'')"

text \<open>\<open>sorted(d.glob('*.npz'))\<close>.\<close>

definition glob_npz :: "'g world \<Rightarrow> string \<Rightarrow> path list" where
  "glob_npz w d = map (Pair d) (sort (filter is_npz (map fst (fs w d))))"

text \<open>\<open>Path.stem\<close>: the name without its last suffix, if it has one.\<close>

definition stem :: "string \<Rightarrow> string" where
  "stem n =
     (let k = length (takeWhile (\<lambda>c. c \<noteq> CHR ''.'') (rev n))
      in if k < length n \<and> 0 < k \<and> 0 < length n - 1 - k then take (length n - 1 - k) n else n)"

text \<open>\<open>np.savez(d / n, x=.., y=..)\<close>: the suffix \<open>.npz\<close> is appended unless present.\<close>

definition npz_name :: "string \<Rightarrow> string" where
  "npz_name n = (if is_npz n then n else n @ ''.npz'')"

definition np_savez :: "'g world \<Rightarrow> path \<Rightarrow> event \<Rightarrow> 'g world" where
  "np_savez w p e =
     w\<lparr>fs := (fs w)(fst p := AList.update (npz_name (snd p)) e (fs w (fst p)))\<rparr>"

section \<open>HGCalDataset\<close>

text \<open>
  The fields that \<open>BaseDataset.__init__\<close> stores; the base class is not among the
  sources, the subclass reads exactly these three attributes.
\<close>

record dataset =
  ds_voxel_size :: rat
  ds_events :: "path list"
  ds_task :: string

datatype labels = Labels2 "int ndarray2" | Labels1 "int list"

text \<open>
  The quantised coordinates. With \<open>voxel_size = 0\<close> every quotient is infinite or not a
  number, and so is every entry of the result; no value is kept for that case.
\<close>

datatype coords = Coords "int ndarray2" | NonFinite

text \<open>
  \<open>pc_ = np.round(block[:, :3] / voxel_size); pc_ -= pc_.min(0, keepdims=1)\<close>. The
  minimum over the rows raises on an array without rows.
\<close>

definition quantize :: "rat \<Rightarrow> rat ndarray2 \<Rightarrow> py_error + coords" where
  "quantize v block =
     (let k = min 3 (ncols block);
          pc0 = map (\<lambda>r. map (\<lambda>c. np_round (c / v)) (take 3 r)) (rows block)
      in if pc0 = [] then Inl ValueError
         else if v = 0 \<and> 0 < k then Inr NonFinite
         else (let mins = map (\<lambda>j. Min (set (map (\<lambda>r. r ! j) pc0))) [0..<k]
               in Inr (Coords \<lparr>ncols = k,
                                rows = map (\<lambda>r. map (\<lambda>j. r ! j - mins ! j) [0..<k]) pc0\<rparr>)))"

definition select_labels :: "string \<Rightarrow> event \<Rightarrow> py_error + labels" where
  "select_labels t e =
     (if t = ''panoptic'' then Inr (Labels2 (ev_y e))
      else if t = ''semantic'' then or_raise (column (ev_y e) 0) (\<lambda>c. Inr (Labels1 c))
      else if t = ''instance'' then or_raise (column (ev_y e) 1) (\<lambda>c. Inr (Labels1 c))
      else Inl (RuntimeError (''Unknown task = '' @ [CHR 0x22] @ t @ [CHR 0x22])))"

definition get_pc_feat_labels ::
  "dataset \<Rightarrow> 'g world \<Rightarrow> int \<Rightarrow> py_error + (coords \<times> rat ndarray2 \<times> labels)" where
  "get_pc_feat_labels self w index =
     or_raise (py_get (ds_events self) index) (\<lambda>p.
     or_raise (np_load w p) (\<lambda>e.
     or_raise (select_labels (ds_task self) e) (\<lambda>labels.
     or_raise (quantize (ds_voxel_size self) (ev_x e)) (\<lambda>pc.
       Inr (pc, ev_x e, labels)))))"

section \<open>HGCalDataModule\<close>

record data_module =
  batch_size :: int
  seed :: "int option"
  num_epochs :: int
  num_workers :: int
  voxel_size :: rat
  num_classes :: int
  task :: string
  event_frac :: rat
  train_frac :: rat
  test_frac :: rat
  raw_data_dir :: string
  noisy_data_dir :: string
  noise_seed :: int
  noise_level :: rat
  raw_events_cache :: "path list option"
  events_cache :: "path list option"
  train_dataset :: "dataset option"
  val_dataset :: "dataset option"
  test_dataset :: "dataset option"

text \<open>The two assertions of \<open>_validate_fracs\<close>.\<close>

definition validate_fracs :: "rat \<Rightarrow> rat \<Rightarrow> rat \<Rightarrow> bool" where
  "validate_fracs e t s = (list_all (\<lambda>q. 0 \<le> q \<and> q \<le> 1) [e, t, s] \<and> t + s \<le> 1)"

text \<open>What the assertions of \<open>__init__\<close> guarantee of every constructed module.\<close>

definition init_asserts :: "data_module \<Rightarrow> bool" where
  "init_asserts self =
     (validate_fracs (event_frac self) (train_frac self) (test_frac self)
      \<and> 0 \<le> noise_level self \<and> noise_level self \<le> 1)"

text \<open>The lazily cached listings \<open>raw_events\<close> and \<open>events\<close>.\<close>

definition raw_events :: "data_module \<Rightarrow> 'g world \<Rightarrow> path list \<times> data_module" where
  "raw_events self w =
     (case raw_events_cache self of
        None \<Rightarrow> (let l = glob_npz w (raw_data_dir self) in (l, self\<lparr>raw_events_cache := Some l\<rparr>))
      | Some l \<Rightarrow> (l, self))"

definition events :: "data_module \<Rightarrow> 'g world \<Rightarrow> path list \<times> data_module" where
  "events self w =
     (case events_cache self of
        None \<Rightarrow> (let l = glob_npz w (noisy_data_dir self) in (l, self\<lparr>events_cache := Some l\<rparr>))
      | Some l \<Rightarrow> (l, self))"

subsection \<open>The fractional partition of the event list\<close>

definition num_events :: "data_module \<Rightarrow> 'a list \<Rightarrow> int" where
  "num_events self evs = py_int (event_frac self * of_nat (length evs))"

definition num_train_events :: "data_module \<Rightarrow> 'a list \<Rightarrow> int" where
  "num_train_events self evs = py_int (train_frac self * of_int (num_events self evs))"

definition num_test_events :: "data_module \<Rightarrow> 'a list \<Rightarrow> int" where
  "num_test_events self evs = py_int (test_frac self * of_int (num_events self evs))"

text \<open>
  \<open>train_val_test_split\<close>: the list is truncated to \<open>num_events\<close> entries, then
  sliced as \<open>events[:num_train]\<close>, \<open>events[num_train:-num_test]\<close> and
  \<open>events[-num_test:]\<close>. The bounds \<open>-num_test\<close> are the negated integer, so they
  are \<open>0\<close> when \<open>num_test\<close> is \<open>0\<close>.
\<close>

definition train_val_test_split ::
  "data_module \<Rightarrow> 'a list \<Rightarrow> 'a list \<times> 'a list \<times> 'a list" where
  "train_val_test_split self evs0 =
     (let evs = py_slice_to evs0 (num_events self evs0);
          n_train = num_train_events self evs0;
          n_test = num_test_events self evs0;
          train_events = py_slice_to evs n_train;
          val_events = py_slice evs n_train (- n_test);
          test_events = py_slice_from evs (- n_test)
      in (train_events, val_events, test_events))"

text \<open>
  The slices as the specification writes them: \<open>events[0 : n_train]\<close>,
  \<open>events[n_train : n_events - n_test]\<close> and \<open>events[n_events - n_test : n_events]\<close>.
\<close>

definition spec_split :: "data_module \<Rightarrow> 'a list \<Rightarrow> 'a list \<times> 'a list \<times> 'a list" where
  "spec_split self evs0 =
     (let n = nat (num_events self evs0);
          evs = take n evs0;
          n_train = nat (num_train_events self evs0);
          n_test = nat (num_test_events self evs0)
      in (take n_train evs,
          drop n_train (take (n - n_test) evs),
          drop (n - n_test) evs))"

subsection \<open>Noise sub-sampling\<close>

text \<open>
  The body of the loop of \<open>make_noisy_data\<close> up to \<open>selected_indices\<close>: the non-noise
  indices, the drawn noise indices and the generator state left behind. \<open>g\<close> is the
  global generator state when the iteration starts.
\<close>

definition select_indices ::
  "'g generator \<Rightarrow> data_module \<Rightarrow> event \<Rightarrow> 'g \<Rightarrow> py_error + (nat list \<times> nat list \<times> 'g)" where
  "select_indices G self e g =
     or_raise (column (ev_y e) 0) (\<lambda>c.
       let non_noise_indices = where_ne0 c;
           noise_indices = where_eq0 c
       in or_raise (np_random_seed G (noise_seed self) g) (\<lambda>g1.
          or_raise (np_random_choice G noise_indices
                      (py_int (of_nat (length noise_indices) * noise_level self)) g1)
            (\<lambda>(selected_noise_indices, g2).
               Inr (non_noise_indices, selected_noise_indices, g2))))"

definition noisy_step ::
  "'g generator \<Rightarrow> data_module \<Rightarrow> path \<Rightarrow> 'g world \<Rightarrow> py_error + 'g world" where
  "noisy_step G self event_path w =
     or_raise (np_load w event_path) (\<lambda>e.
     or_raise (select_indices G self e (np_random w)) (\<lambda>(non_noise, selected_noise, g2).
       let selected_indices = non_noise @ selected_noise;
           w2 = w\<lparr>np_random := g2\<rparr>
       in if 0 < length selected_indices
          then or_raise (take_rows (ev_x e) selected_indices) (\<lambda>x_selected.
               or_raise (take_rows (ev_y e) selected_indices) (\<lambda>y_selected.
                 Inr (np_savez w2 (noisy_data_dir self, stem (snd event_path))
                        \<lparr>ev_x = x_selected, ev_y = y_selected\<rparr>)))
          else Inr w2))"

fun noisy_loop ::
  "'g generator \<Rightarrow> data_module \<Rightarrow> path list \<Rightarrow> 'g world \<Rightarrow> py_error + 'g world" where
  "noisy_loop G self [] w = Inr w"
| "noisy_loop G self (p # ps) w = or_raise (noisy_step G self p w) (noisy_loop G self ps)"

definition make_noisy_data ::
  "'g generator \<Rightarrow> data_module \<Rightarrow> 'g world \<Rightarrow> py_error + (data_module \<times> 'g world)" where
  "make_noisy_data G self w =
     (if noise_level self = 1 then Inr (self, w)
      else (let w1 = w\<lparr>logged := logged w @ [SavingNoisyData (noisy_data_dir self)]\<rparr>
            in case raw_events self w1 of
                 (paths, self1) \<Rightarrow>
                   or_raise (noisy_loop G self1 paths w1) (\<lambda>w2. Inr (self1, w2))))"

subsection \<open>Seed derivation and dataset construction\<close>

definition HGCalDataset :: "rat \<Rightarrow> path list \<Rightarrow> string \<Rightarrow> dataset" where
  "HGCalDataset v evs t = \<lparr>ds_voxel_size = v, ds_events = evs, ds_task = t\<rparr>"

text \<open>\<open>setup(stage)\<close>; \<open>stage\<close> is \<open>None\<close> or a string.\<close>

text \<open>The seed before the rank offset is added: the one supplied, or the ambient one.\<close>

definition base_seed :: "data_module \<Rightarrow> 'g world \<Rightarrow> int" where
  "base_seed self w =
     (case seed self of None \<Rightarrow> torch_initial_seed w mod (2 ^ 32 - 1) | Some s \<Rightarrow> s)"

definition setup_module ::
  "'g generator \<Rightarrow> string option \<Rightarrow> data_module \<Rightarrow> 'g world \<Rightarrow> data_module \<times> 'g world" where
  "setup_module G stage self w =
     (let s = base_seed self w + get_rank w * num_workers self * num_epochs self;
          self1 = self\<lparr>seed := Some s\<rparr>;
          w1 = w\<lparr>logged := logged w @ [SettingSeed s],
                 seeded := seeded w @ [s],
                 np_random := seed_everything G s (np_random w)\<rparr>
      in case events self1 w1 of
           (evs, self2) \<Rightarrow>
             (case train_val_test_split self2 evs of
                (train_events, val_events, test_events) \<Rightarrow>
                  (let self3 =
                         (if stage = Some ''fit'' \<or> stage = None
                          then self2\<lparr>train_dataset :=
                                        Some (HGCalDataset (voxel_size self2) train_events (task self2)),
                                      val_dataset :=
                                        Some (HGCalDataset (voxel_size self2) val_events (task self2))\<rparr>
                          else self2);
                       self4 =
                         (if stage = Some ''test'' \<or> stage = None
                          then self3\<lparr>test_dataset :=
                                        Some (HGCalDataset (voxel_size self3) test_events (task self3))\<rparr>
                          else self3)
                   in (self4, w1))))"

subsection \<open>Concrete inputs used in the evaluations\<close>

text \<open>
  A module built with the defaults of \<open>__init__\<close> where it has them (fractions
  \<open>1.0, 0.8, 0.1\<close>, task \<open>class\<close>, noise level \<open>1.0\<close>, noise seed \<open>31\<close>, no seed).
\<close>

definition default_module :: data_module where
  "default_module =
     \<lparr>batch_size = 1, seed = None, num_epochs = 10, num_workers = 8, voxel_size = 10,
      num_classes = 4, task = ''class'',
      event_frac = 1, train_frac = 8 / 10, test_frac = 1 / 10,
      raw_data_dir = ''data/1.0_noise'', noisy_data_dir = ''data/1.0_noise'',
      noise_seed = 31, noise_level = 1,
      raw_events_cache = None, events_cache = None,
      train_dataset = None, val_dataset = None, test_dataset = None\<rparr>"

text \<open>A module that keeps half of the noise, writing to its own directory.\<close>

definition half_noise_module :: data_module where
  "half_noise_module =
     default_module\<lparr>noise_level := 1 / 2, noisy_data_dir := ''data/0.5_noise'', seed := Some 42\<rparr>"

text \<open>
  A small linear congruential generator standing in for numpy's: each draw advances
  the state by \<open>g \<mapsto> (5 g + 3) mod 16\<close> and reduces it to a position.
\<close>

fun lcg_draws :: "nat \<Rightarrow> nat \<Rightarrow> nat \<Rightarrow> nat list \<times> nat" where
  "lcg_draws g n 0 = ([], g)"
| "lcg_draws g n (Suc k) =
     (case lcg_draws ((5 * g + 3) mod 16) n k of
        (ps, h) \<Rightarrow> (((5 * g + 3) mod 16) mod n # ps, h))"

definition lcg_generator :: "nat generator" where
  "lcg_generator =
     \<lparr>seed_state = (\<lambda>s. nat s), randint = lcg_draws, seed_everything = (\<lambda>s g. nat s)\<rparr>"

text \<open>Events with five feature columns (x, y, z, time, energy) and two label columns.\<close>

definition two_hit_event :: event where
  "two_hit_event =
     \<lparr>ev_x = \<lparr>ncols = 5, rows = [[5, 5, 5, 0, 1], [15, 25, 5, 0, 2]]\<rparr>,
      ev_y = \<lparr>ncols = 2, rows = [[1, 7], [0, 0]]\<rparr>\<rparr>"

definition no_hit_event :: event where
  "no_hit_event = \<lparr>ev_x = \<lparr>ncols = 5, rows = []\<rparr>, ev_y = \<lparr>ncols = 2, rows = []\<rparr>\<rparr>"

definition six_hit_event :: event where
  "six_hit_event =
     \<lparr>ev_x = \<lparr>ncols = 5,
              rows = [[0, 0, 0, 0, 1], [10, 0, 0, 0, 2], [20, 0, 0, 0, 3],
                      [30, 0, 0, 0, 4], [40, 0, 0, 0, 5], [50, 0, 0, 0, 6]]\<rparr>,
      ev_y = \<lparr>ncols = 2, rows = [[0, 0], [2, 1], [0, 0], [0, 0], [0, 0], [0, 0]]\<rparr>\<rparr>"

definition five_noise_event :: event where
  "five_noise_event =
     \<lparr>ev_x = \<lparr>ncols = 5,
              rows = [[1, 1, 0, 0, 1], [2, 1, 0, 0, 1], [3, 1, 0, 0, 1],
                      [4, 1, 0, 0, 1], [5, 1, 0, 0, 1], [6, 1, 0, 0, 9]]\<rparr>,
      ev_y = \<lparr>ncols = 2, rows = [[0, 0], [0, 0], [0, 0], [0, 0], [0, 0], [3, 1]]\<rparr>\<rparr>"

definition one_noise_hit_event :: event where
  "one_noise_hit_event =
     \<lparr>ev_x = \<lparr>ncols = 5, rows = [[1, 2, 3, 0, 1]]\<rparr>, ev_y = \<lparr>ncols = 2, rows = [[0, 0]]\<rparr>\<rparr>"


definition example_world :: "nat world" where
  "example_world =
     \<lparr>fs = (\<lambda>d. if d = ''data/1.0_noise''
                then [(''six.npz'', six_hit_event), (''one.npz'', one_noise_hit_event),
                      (''two.npz'', two_hit_event), (''none.npz'', no_hit_event)]
                else []),
      np_random = 7, seeded = [], logged = [], get_rank = 1, torch_initial_seed = 12345\<rparr>"

definition semantic_dataset :: dataset where
  "semantic_dataset =
     HGCalDataset 10 [(''data/1.0_noise'', ''none.npz''), (''data/1.0_noise'', ''two.npz'')]
       ''semantic''"

section \<open>Properties of the partition\<close>


lemma py_int_floor: "0 \<le> q \<Longrightarrow> py_int q = \<lfloor>q\<rfloor>"
  by (simp add: py_int_def)

lemma num_events_bounds:
  assumes "init_asserts f"
  shows "0 \<le> num_events f es" and "num_events f es \<le> int (length es)"
proof -
  from assms have e: "0 \<le> event_frac f" "event_frac f \<le> 1"
    by (simp_all add: init_asserts_def validate_fracs_def)
  show "0 \<le> num_events f es"
    using e by (simp add: num_events_def py_int_def)
  have "event_frac f * of_nat (length es) \<le> 1 * of_nat (length es)"
    using e by (intro mult_right_mono) simp_all
  then have "\<lfloor>event_frac f * of_nat (length es)\<rfloor> \<le> \<lfloor>(of_nat (length es) :: rat)\<rfloor>"
    by (intro floor_mono) simp
  then show "num_events f es \<le> int (length es)"
    using e by (simp add: num_events_def py_int_def)
qed

lemma num_train_test_bounds:
  assumes "init_asserts f"
  shows "0 \<le> num_train_events f es" and "0 \<le> num_test_events f es"
    and "num_train_events f es + num_test_events f es \<le> num_events f es"
proof -
  let ?n = "num_events f es"
  from assms have t: "0 \<le> train_frac f" "0 \<le> test_frac f" "train_frac f + test_frac f \<le> 1"
    by (simp_all add: init_asserts_def validate_fracs_def)
  have n: "0 \<le> ?n" by (rule num_events_bounds(1) [OF assms])
  then have n': "(0::rat) \<le> of_int ?n" by simp
  have a: "0 \<le> train_frac f * of_int ?n" and b: "0 \<le> test_frac f * of_int ?n"
    using t n' by simp_all
  show "0 \<le> num_train_events f es" "0 \<le> num_test_events f es"
    using a b by (simp_all add: num_train_events_def num_test_events_def py_int_def)
  have "\<lfloor>train_frac f * of_int ?n\<rfloor> + \<lfloor>test_frac f * of_int ?n\<rfloor>
          \<le> \<lfloor>train_frac f * of_int ?n + test_frac f * of_int ?n\<rfloor>"
    by (rule le_floor_add)
  also have "train_frac f * of_int ?n + test_frac f * of_int ?n
          = (train_frac f + test_frac f) * of_int ?n"
    by (simp add: algebra_simps)
  also have "\<lfloor>(train_frac f + test_frac f) * of_int ?n\<rfloor> \<le> \<lfloor>(1::rat) * of_int ?n\<rfloor>"
    using t n' by (intro floor_mono mult_right_mono) simp_all
  finally show "num_train_events f es + num_test_events f es \<le> ?n"
    using a b by (simp add: num_train_events_def num_test_events_def py_int_floor)
qed

lemma py_slices_nonzero:
  assumes "0 \<le> a" and "0 < b" and "a + b \<le> int (length xs)"
  shows "py_slice_to xs a = take (nat a) xs"
    and "py_slice xs a (- b) = drop (nat a) (take (length xs - nat b) xs)"
    and "py_slice_from xs (- b) = drop (length xs - nat b) xs"
proof -
  have lo: "py_bound (length xs) a = nat a"
    using assms by (simp add: py_bound_def)
  have hi: "py_bound (length xs) (- b) = length xs - nat b"
    using assms by (simp add: py_bound_def nat_diff_distrib')
  show "py_slice_to xs a = take (nat a) xs"
    by (simp only: py_slice_to_def lo)
  show "py_slice xs a (- b) = drop (nat a) (take (length xs - nat b) xs)"
    by (simp only: py_slice_def lo hi)
  show "py_slice_from xs (- b) = drop (length xs - nat b) xs"
    by (simp only: py_slice_from_def hi)
qed

lemma py_slices_zero:
  assumes "0 \<le> a" and "a \<le> int (length xs)"
  shows "py_slice_to xs a = take (nat a) xs"
    and "py_slice xs a (- 0) = []"
    and "py_slice_from xs (- 0) = xs"
  using assms by (simp_all add: py_slice_to_def py_slice_def py_slice_from_def py_bound_def)

lemma truncated_events:
  assumes "init_asserts f"
  shows "py_slice_to es (num_events f es) = take (nat (num_events f es)) es"
    and "length (take (nat (num_events f es)) es) = nat (num_events f es)"
  using num_events_bounds [OF assms, of es]
  by (simp_all add: py_slice_to_def py_bound_def)

text \<open>
  With at least one test event the source's three slices are the specification's
  slices.
\<close>

lemma split_eq_spec_when_test_nonempty:
  assumes "init_asserts f" and "0 < num_test_events f es"
  shows "train_val_test_split f es = spec_split f es"
proof -
  let ?n = "num_events f es" and ?a = "num_train_events f es" and ?b = "num_test_events f es"
  let ?ev = "take (nat ?n) es"
  note nb = num_events_bounds [OF assms(1), of es]
  note tb = num_train_test_bounds [OF assms(1), of es]
  note ev = truncated_events [OF assms(1), of es]
  have le: "?a + ?b \<le> int (length ?ev)"
    using tb nb by (simp only: ev(2))
  note sl = py_slices_nonzero [OF tb(1) assms(2) le]
  show ?thesis
    by (simp only: train_val_test_split_def spec_split_def Let_def ev sl)
qed

text \<open>
  With no test event both \<open>-num_test\<close> bounds are \<open>0\<close>: the validation slice stops at
  position 0 and the test slice starts at position 0.
\<close>

lemma split_when_test_empty:
  assumes "init_asserts f" and "num_test_events f es = 0"
  shows "train_val_test_split f es =
           (take (nat (num_train_events f es)) (take (nat (num_events f es)) es),
            [],
            take (nat (num_events f es)) es)"
proof -
  let ?n = "num_events f es" and ?a = "num_train_events f es"
  let ?ev = "take (nat ?n) es"
  note nb = num_events_bounds [OF assms(1), of es]
  note tb = num_train_test_bounds [OF assms(1), of es]
  note ev = truncated_events [OF assms(1), of es]
  have le: "?a \<le> int (length ?ev)"
    using tb nb assms(2) by (simp only: ev(2))
  note sl = py_slices_zero [OF tb(1) le]
  show ?thesis
    by (simp only: train_val_test_split_def Let_def ev(1) assms(2) sl)
qed

text \<open>
  C1. The claim: for validated fractions the three returned lists are the
  specification's slices of the truncated list, and with \<open>n_test = 0\<close> the test slice
  is empty while the validation slice runs to the end. The source writes the bounds as
  \<open>-num_test\<close>; at the default fractions and five events \<open>n_test\<close> is \<open>0\<close>, the
  validation list comes out empty and the test list is the whole truncated list, where
  the specification's slices give one validation event and no test event.
\<close>

theorem split_default_five_events:
  "init_asserts default_module
   \<and> num_test_events default_module [''e0'', ''e1'', ''e2'', ''e3'', ''e4''] = 0
   \<and> train_val_test_split default_module [''e0'', ''e1'', ''e2'', ''e3'', ''e4'']
       = ([''e0'', ''e1'', ''e2'', ''e3''], [], [''e0'', ''e1'', ''e2'', ''e3'', ''e4''])
   \<and> spec_split default_module [''e0'', ''e1'', ''e2'', ''e3'', ''e4'']
       = ([''e0'', ''e1'', ''e2'', ''e3''], [''e4''], [])"
  by code_simp

text \<open>
  C2. The claim: the three lengths add up to \<open>floor(event_frac * N)\<close> and the three
  lists are pairwise disjoint contiguous ranges. With fractions \<open>1.0, 0.5, 0.0\<close> and
  four events the lengths are 2, 0 and 4, which add up to 6 and not to 4, and both
  training events are test events as well.
\<close>

theorem split_lengths_without_test_events:
  "init_asserts (default_module\<lparr>train_frac := 1 / 2, test_frac := 0\<rparr>)
   \<and> num_events (default_module\<lparr>train_frac := 1 / 2, test_frac := 0\<rparr>)
        [''a'', ''b'', ''c'', ''d''] = 4
   \<and> map_prod length (map_prod length length)
        (train_val_test_split (default_module\<lparr>train_frac := 1 / 2, test_frac := 0\<rparr>)
           [''a'', ''b'', ''c'', ''d'']) = (2, 0, 4)
   \<and> fst (train_val_test_split (default_module\<lparr>train_frac := 1 / 2, test_frac := 0\<rparr>)
           [''a'', ''b'', ''c'', ''d'']) = [''a'', ''b'']
   \<and> snd (snd (train_val_test_split (default_module\<lparr>train_frac := 1 / 2, test_frac := 0\<rparr>)
           [''a'', ''b'', ''c'', ''d''])) = [''a'', ''b'', ''c'', ''d'']"
  by code_simp

section \<open>Properties of the seed derivation\<close>

lemma setup_module_seed:
  "seed (fst (setup_module G stage self w))
     = Some (base_seed self w + get_rank w * num_workers self * num_epochs self)"
  by (auto simp add: setup_module_def Let_def events_def split: prod.splits option.splits)

lemma setup_module_config:
  "num_workers (fst (setup_module G stage self w)) = num_workers self"
  "num_epochs (fst (setup_module G stage self w)) = num_epochs self"
  by (auto simp add: setup_module_def Let_def events_def split: prod.splits option.splits)

lemma setup_module_world:
  "get_rank (snd (setup_module G stage self w)) = get_rank w"
  "seeded (snd (setup_module G stage self w))
     = seeded w @ [base_seed self w + get_rank w * num_workers self * num_epochs self]"
  "fs (snd (setup_module G stage self w)) = fs w"
  by (auto simp add: setup_module_def Let_def split: prod.splits)

lemma base_seed_Some: "seed self = Some s \<Longrightarrow> base_seed self w = s"
  by (simp add: base_seed_def)

text \<open>
  C5. The claim: the derived seed is \<open>base_seed + rank * num_workers * num_epochs\<close>, and
  for fixed \<open>(base_seed, num_workers, num_epochs)\<close> two distinct ranks get distinct
  seeds. The first half holds. The second fails when the product
  \<open>num_workers * num_epochs\<close> is \<open>0\<close>: with \<open>num_workers = 0\<close> (loading in the main
  process) ranks 1 and 0 both end with seed 42.
\<close>

theorem ranks_share_seed_without_workers:
  "get_rank example_world \<noteq> get_rank (example_world\<lparr>get_rank := 0\<rparr>)
   \<and> seed (fst (setup_module lcg_generator (Some ''fit'')
                  (half_noise_module\<lparr>num_workers := 0\<rparr>) example_world))
       = seed (fst (setup_module lcg_generator (Some ''fit'')
                  (half_noise_module\<lparr>num_workers := 0\<rparr>) (example_world\<lparr>get_rank := 0\<rparr>)))"
  by code_simp

text \<open>
  C5, as amended: the derived seed is \<open>base_seed + rank * num_workers * num_epochs\<close>,
  and for a fixed base seed and a non-zero product \<open>num_workers * num_epochs\<close> two
  distinct ranks get distinct seeds.
\<close>

theorem setup_seed_per_rank:
  "seed (fst (setup_module G stage self w))
     = Some (base_seed self w + get_rank w * num_workers self * num_epochs self)
   \<and> (base_seed self w' = base_seed self w \<and> get_rank w' \<noteq> get_rank w
        \<and> num_workers self * num_epochs self \<noteq> 0
       \<longrightarrow> seed (fst (setup_module G stage' self w'))
             \<noteq> seed (fst (setup_module G stage self w)))"
  by (simp add: setup_module_seed)

theorem setup_seed_per_rank_witness:
  "seed (fst (setup_module lcg_generator (Some ''fit'') half_noise_module example_world))
     = Some 122
   \<and> base_seed half_noise_module (example_world\<lparr>get_rank := 0\<rparr>)
       = base_seed half_noise_module example_world
   \<and> get_rank (example_world\<lparr>get_rank := 0\<rparr>) \<noteq> get_rank example_world
   \<and> num_workers half_noise_module * num_epochs half_noise_module \<noteq> 0
   \<and> seed (fst (setup_module lcg_generator (Some ''test'') half_noise_module
                  (example_world\<lparr>get_rank := 0\<rparr>)))
       \<noteq> seed (fst (setup_module lcg_generator (Some ''fit'') half_noise_module example_world))"
proof -
  have b: "base_seed half_noise_module example_world = 42"
    "base_seed half_noise_module (example_world\<lparr>get_rank := 0\<rparr>) = 42"
    by (simp_all add: base_seed_def half_noise_module_def)
  have r: "get_rank example_world = 1"
    by (simp add: example_world_def)
  have n: "num_workers half_noise_module = 8" "num_epochs half_noise_module = 10"
    by (simp_all add: half_noise_module_def default_module_def)
  from setup_seed_per_rank [of lcg_generator "Some ''fit''" half_noise_module example_world
      "example_world\<lparr>get_rank := 0\<rparr>" "Some ''test''"]
  show ?thesis
    by (auto simp add: b r n)
qed

text \<open>
  C10. When the seed is already set, each call of \<open>setup\<close> adds the rank offset
  \<open>get_rank() * num_workers * num_epochs\<close> to it. After two calls in a row the seed is
  the original one plus twice the offset, \<open>pl.seed_everything\<close> has been called with
  the two successive values, and these differ whenever the offset is not \<open>0\<close>.
\<close>

theorem setup_twice_adds_offset_twice:
  assumes "seed self = Some s"
  shows "(let off = get_rank w * num_workers self * num_epochs self;
              r1 = setup_module G stage1 self w;
              r2 = setup_module G stage2 (fst r1) (snd r1)
          in seed (fst r1) = Some (s + off)
             \<and> seed (fst r2) = Some (s + 2 * off)
             \<and> seeded (snd r1) = seeded w @ [s + off]
             \<and> seeded (snd r2) = seeded w @ [s + off, s + 2 * off]
             \<and> (off \<noteq> 0 \<longrightarrow> last (seeded (snd r1)) \<noteq> last (seeded (snd r2))))"
proof -
  let ?off = "get_rank w * num_workers self * num_epochs self"
  let ?r1 = "setup_module G stage1 self w"
  have s1: "seed (fst ?r1) = Some (s + ?off)"
    by (simp add: setup_module_seed base_seed_Some [OF assms])
  have b2: "base_seed (fst ?r1) (snd ?r1) = s + ?off"
    by (rule base_seed_Some [OF s1])
  show ?thesis
    by (simp add: Let_def setup_module_seed setup_module_world setup_module_config
        base_seed_Some [OF assms] b2)
qed

theorem setup_twice_adds_offset_twice_witness:
  "seed half_noise_module = Some 42
   \<and> seed (fst (setup_module lcg_generator (Some ''fit'') half_noise_module example_world))
       = Some 122
   \<and> seed (fst (setup_module lcg_generator (Some ''test'')
        (fst (setup_module lcg_generator (Some ''fit'') half_noise_module example_world))
        (snd (setup_module lcg_generator (Some ''fit'') half_noise_module example_world))))
       = Some 202
   \<and> seeded (snd (setup_module lcg_generator (Some ''test'')
        (fst (setup_module lcg_generator (Some ''fit'') half_noise_module example_world))
        (snd (setup_module lcg_generator (Some ''fit'') half_noise_module example_world))))
       = [122, 202]"
proof -
  have h: "seed half_noise_module = Some 42"
    by (simp add: half_noise_module_def)
  have r: "get_rank example_world = 1" "seeded example_world = []"
    by (simp_all add: example_world_def)
  have n: "num_workers half_noise_module = 8" "num_epochs half_noise_module = 10"
    by (simp_all add: half_noise_module_def default_module_def)
  from setup_twice_adds_offset_twice [OF h, of example_world lcg_generator
      "Some ''fit''" "Some ''test''"]
  show ?thesis
    by (simp add: Let_def h r n)
qed

section \<open>Properties of the noise sub-sampling\<close>

text \<open>
  C7. With \<open>noise_level == 1.0\<close> the call of \<open>make_noisy_data\<close> returns at once: no
  exception, and the module (its cached listings included), the files, the generator
  state and the log are what they were.
\<close>

theorem make_noisy_data_full_noise_is_noop:
  "noise_level self = 1 \<Longrightarrow> make_noisy_data G self w = Inr (self, w)"
  by (simp add: make_noisy_data_def)

theorem make_noisy_data_full_noise_is_noop_witness:
  "noise_level default_module = 1
   \<and> make_noisy_data lcg_generator default_module example_world
       = Inr (default_module, example_world)"
proof -
  have h: "noise_level default_module = 1"
    by (simp add: default_module_def)
  show ?thesis
    using h make_noisy_data_full_noise_is_noop [OF h] by simp
qed

text \<open>At any other noise level the call is not silent: it logs before its loop.\<close>

lemma noisy_step_logged: "noisy_step G self p w = Inr w' \<Longrightarrow> logged w' = logged w"
  by (auto simp add: noisy_step_def or_raise_def Let_def np_savez_def
      split: sum.splits prod.splits if_splits)

lemma noisy_loop_logged: "noisy_loop G self ps w = Inr w' \<Longrightarrow> logged w' = logged w"
proof (induction ps arbitrary: w)
  case Nil
  then show ?case by simp
next
  case (Cons p ps)
  then obtain w1 where 1: "noisy_step G self p w = Inr w1" and 2: "noisy_loop G self ps w1 = Inr w'"
    by (auto simp add: or_raise_def split: sum.splits)
  from Cons.IH [OF 2] noisy_step_logged [OF 1] show ?case by simp
qed

lemma make_noisy_data_logs:
  assumes "noise_level self \<noteq> 1" and "make_noisy_data G self w = Inr (self', w')"
  shows "logged w' = logged w @ [SavingNoisyData (noisy_data_dir self)]"
  using assms
  by (auto simp add: make_noisy_data_def Let_def or_raise_def
      split: prod.splits sum.splits dest!: noisy_loop_logged)


















text \<open>The two cases on the example files: one event is stored, one is skipped.\<close>

lemma noisy_step_one_noise_hit:
  "case noisy_step lcg_generator half_noise_module (''data/1.0_noise'', ''one.npz'')
          example_world of
     Inl err \<Rightarrow> False
   | Inr w' \<Rightarrow> fs w' ''data/0.5_noise'' = [] \<and> fs w' ''data/1.0_noise''
       = fs example_world ''data/1.0_noise''"
  by code_simp

lemma noisy_step_six_hits: "case noisy_step lcg_generator half_noise_module (''data/1.0_noise'', ''six.npz'') example_world of
     Inl err \<Rightarrow> False
   | Inr w' \<Rightarrow> fs w' ''data/0.5_noise'' = [(''six.npz'',
   \<lparr>ev_x = \<lparr>ncols = 5, rows = [[10, 0, 0, 0, 2], [50, 0, 0, 0, 6], [50, 0, 0, 0, 6]]\<rparr>,
      ev_y = \<lparr>ncols = 2, rows = [[2, 1], [0, 0], [0, 0]]\<rparr>\<rparr>)]"
  by code_simp

text \<open>
  C9. The generator is reseeded with \<open>noise_seed\<close> before every draw. The indices
  selected for an event therefore do not depend on the generator state the iteration
  starts from, which is all that earlier iterations leave to it, and neither does the
  outcome of the whole iteration. Two events with the same number of noise hits get
  the same positions within their noise-index arrays, and leave the same generator
  state.
\<close>

theorem noise_draw_ignores_history:
  "select_indices G self e g1 = select_indices G self e g2
   \<and> noisy_step G self p (w\<lparr>np_random := g\<rparr>) = noisy_step G self p w
   \<and> (column (ev_y e1) 0 = Inr c1 \<and> column (ev_y e2) 0 = Inr c2
       \<and> length (where_eq0 c1) = length (where_eq0 c2)
       \<and> select_indices G self e1 g1 = Inr (nn1, sn1, h1)
       \<and> select_indices G self e2 g2 = Inr (nn2, sn2, h2)
      \<longrightarrow> h1 = h2
          \<and> (\<exists>pos. sn1 = map (\<lambda>p. where_eq0 c1 ! p) pos
                  \<and> sn2 = map (\<lambda>p. where_eq0 c2 ! p) pos))"
proof (intro conjI impI)
  show a: "select_indices G self e g1 = select_indices G self e g2" for e g1 g2
    by (simp add: select_indices_def np_random_seed_def)
  show "noisy_step G self p (w\<lparr>np_random := g\<rparr>) = noisy_step G self p w"
    by (simp add: noisy_step_def np_load_def a [of _ g "np_random w"])
next
  assume h: "column (ev_y e1) 0 = Inr c1 \<and> column (ev_y e2) 0 = Inr c2
       \<and> length (where_eq0 c1) = length (where_eq0 c2)
       \<and> select_indices G self e1 g1 = Inr (nn1, sn1, h1)
       \<and> select_indices G self e2 g2 = Inr (nn2, sn2, h2)"
  let ?n = "length (where_eq0 c1)"
  let ?k = "py_int (of_nat ?n * noise_level self)"
  let ?d = "randint G (seed_state G (noise_seed self)) ?n (nat ?k)"
  have r: "sn = map (\<lambda>p. where_eq0 c ! p) (fst ?d) \<and> h' = snd ?d"
    if "column (ev_y e) 0 = Inr c" "length (where_eq0 c) = ?n"
      "select_indices G self e g' = Inr (nn, sn, h')" for e c g' nn sn h'
    using that
    by (auto simp add: select_indices_def or_raise_def Let_def np_random_seed_def
        np_random_choice_def split: if_splits prod.splits)
  from h r [of e1 c1 g1 nn1 sn1 h1] r [of e2 c2 g2 nn2 sn2 h2]
  have 1: "sn1 = map (\<lambda>p. where_eq0 c1 ! p) (fst ?d)" "h1 = snd ?d"
    and 2: "sn2 = map (\<lambda>p. where_eq0 c2 ! p) (fst ?d)" "h2 = snd ?d"
    by simp_all
  show "h1 = h2" using 1 2 by simp
  show "\<exists>pos. sn1 = map (\<lambda>p. where_eq0 c1 ! p) pos \<and> sn2 = map (\<lambda>p. where_eq0 c2 ! p) pos"
    using 1 2 by blast
qed

theorem noise_draw_ignores_history_witness:
  "select_indices lcg_generator half_noise_module six_hit_event 7
     = select_indices lcg_generator half_noise_module six_hit_event 3
   \<and> column (ev_y six_hit_event) 0 = Inr [0, 2, 0, 0, 0, 0]
   \<and> column (ev_y five_noise_event) 0 = Inr [0, 0, 0, 0, 0, 3]
   \<and> length (where_eq0 [0, 2, 0, 0, 0, 0]) = length (where_eq0 [0, 0, 0, 0, 0, 3])
   \<and> select_indices lcg_generator half_noise_module six_hit_event 7 = Inr ([1], [5, 5], 9)
   \<and> select_indices lcg_generator half_noise_module five_noise_event 3 = Inr ([5], [4, 4], 9)
   \<and> (\<exists>pos. [5, 5] = map (\<lambda>p. where_eq0 [0, 2, 0, 0, 0, 0] ! p) pos
            \<and> [4, 4] = map (\<lambda>p. where_eq0 [0, 0, 0, 0, 0, 3] ! p) pos)"
proof -
  have h: "column (ev_y six_hit_event) 0 = Inr [0, 2, 0, 0, 0, 0]"
    "column (ev_y five_noise_event) 0 = Inr [0, 0, 0, 0, 0, 3]"
    "length (where_eq0 [0, 2, 0, 0, 0, 0]) = length (where_eq0 [0, 0, 0, 0, 0, 3])"
    "select_indices lcg_generator half_noise_module six_hit_event 7 = Inr ([1], [5, 5], 9)"
    "select_indices lcg_generator half_noise_module five_noise_event 3 = Inr ([5], [4, 4], 9)"
    by code_simp+
  from noise_draw_ignores_history [where G = lcg_generator and self = half_noise_module and e = six_hit_event
      and ?g1.0 = 7 and ?g2.0 = 3 and p = "(''data/1.0_noise'', ''six.npz'')"
      and w = example_world and g = 11
      and ?e1.0 = six_hit_event and ?c1.0 = "[0, 2, 0, 0, 0, 0]"
      and ?e2.0 = five_noise_event and ?c2.0 = "[0, 0, 0, 0, 0, 3]"
      and ?nn1.0 = "[1]" and ?sn1.0 = "[5, 5]" and ?h1.0 = 9
      and ?nn2.0 = "[5]" and ?sn2.0 = "[4, 4]" and ?h2.0 = 9] h
  show ?thesis
    by blast
qed


section \<open>Properties of the per-event loader\<close>






lemma quantize_returns: "rows block \<noteq> [] \<Longrightarrow> \<exists>pc. quantize v block = Inr pc"
  by (simp add: quantize_def Let_def)

text \<open>
  C6. The claim: an index access raises if and only if the task is none of
  \<open>panoptic\<close>, \<open>semantic\<close>, \<open>instance\<close>. With a recognised task the access still
  raises on an event file without hits: the minimum over the rows of an empty array
  has no value and numpy raises \<open>ValueError\<close>.
\<close>

theorem loader_raises_on_event_without_hits:
  "ds_task semantic_dataset = ''semantic''
   \<and> get_pc_feat_labels semantic_dataset example_world 0 = Inl ValueError"
  by code_simp

text \<open>
  C6, as amended: for an index within the event list whose file loads to an event
  with at least one hit and a label array of two columns, the access raises if and
  only if the task is none of \<open>panoptic\<close>, \<open>semantic\<close>, \<open>instance\<close>; for
  \<open>panoptic\<close> the labels are the whole label array, for \<open>semantic\<close> its column 0 and
  for \<open>instance\<close> its column 1.
\<close>

theorem loader_raises_iff_unknown_task:
  assumes "py_get (ds_events self) index = Inr p" and "np_load w p = Inr e"
    and "rows (ev_x e) \<noteq> []" and "ncols (ev_y e) = 2"
  shows "(isl (get_pc_feat_labels self w index)
            \<longleftrightarrow> ds_task self \<notin> {''panoptic'', ''semantic'', ''instance''})
   \<and> (ds_task self = ''panoptic'' \<longrightarrow>
        (\<exists>pc. get_pc_feat_labels self w index = Inr (pc, ev_x e, Labels2 (ev_y e))))
   \<and> (ds_task self = ''semantic'' \<longrightarrow>
        (\<exists>pc. get_pc_feat_labels self w index
                = Inr (pc, ev_x e, Labels1 (map (\<lambda>r. r ! 0) (rows (ev_y e))))))
   \<and> (ds_task self = ''instance'' \<longrightarrow>
        (\<exists>pc. get_pc_feat_labels self w index
                = Inr (pc, ev_x e, Labels1 (map (\<lambda>r. r ! 1) (rows (ev_y e))))))"
proof -
  obtain pc where pc: "quantize (ds_voxel_size self) (ev_x e) = Inr pc"
    using quantize_returns [OF assms(3)] by blast
  have get: "get_pc_feat_labels self w index
      = or_raise (select_labels (ds_task self) e) (\<lambda>labels. Inr (pc, ev_x e, labels))"
    by (simp add: get_pc_feat_labels_def or_raise_def assms(1) assms(2) pc split: sum.splits)
  show ?thesis
    unfolding get
    by (simp add: select_labels_def or_raise_def column_def assms(4))
qed

theorem loader_raises_iff_unknown_task_witness:
  "py_get (ds_events semantic_dataset) 1 = Inr (''data/1.0_noise'', ''two.npz'')
   \<and> np_load example_world (''data/1.0_noise'', ''two.npz'') = Inr two_hit_event
   \<and> rows (ev_x two_hit_event) \<noteq> [] \<and> ncols (ev_y two_hit_event) = 2
   \<and> ds_task semantic_dataset = ''semantic''
   \<and> \<not> isl (get_pc_feat_labels semantic_dataset example_world 1)
   \<and> (\<exists>pc. get_pc_feat_labels semantic_dataset example_world 1
              = Inr (pc, ev_x two_hit_event, Labels1 (map (\<lambda>r. r ! 0) (rows (ev_y two_hit_event)))))"
proof -
  have h1: "py_get (ds_events semantic_dataset) 1 = Inr (''data/1.0_noise'', ''two.npz'')"
    and h2: "np_load example_world (''data/1.0_noise'', ''two.npz'') = Inr two_hit_event"
    and h3: "rows (ev_x two_hit_event) \<noteq> []" and h4: "ncols (ev_y two_hit_event) = 2"
    and h5: "ds_task semantic_dataset = ''semantic''"
    by (simp_all add: semantic_dataset_def HGCalDataset_def py_get_def py_index_def
        np_load_def example_world_def two_hit_event_def)
  from loader_raises_iff_unknown_task [OF h1 h2 h3 h4] h1 h2 h3 h4 h5 show ?thesis
    by simp
qed

end
